theory Spec2Isabelle
  imports Main "HOL-Library.Char_ord" "HOL-Library.List_Lexorder" "HOL-Library.Code_Target_Nat"
begin

section \<open>Characters and strings as JavaScript sees them\<close>

text \<open>
  Strings are lists of 8-bit characters. The character classes below are the ones the
  regular expressions and \<^verbatim>\<open>String.prototype.trim\<close> of the source use, restricted to
  that range: \<^verbatim>\<open>\w\<close> is \<^verbatim>\<open>[A-Za-z0-9_]\<close>, \<^verbatim>\<open>\s\<close> and \<^verbatim>\<open>trim\<close> take TAB, LF, VT, FF, CR,
  SPACE and NBSP. The \<^verbatim>\<open>i\<close> flag (without \<^verbatim>\<open>u\<close>) folds ASCII letters only.
\<close>

definition charCode :: "char \<Rightarrow> nat" where
  "charCode c = of_char c"

definition isDigit :: "char \<Rightarrow> bool" where
  "isDigit c = (48 \<le> charCode c \<and> charCode c \<le> 57)"

definition isUpper :: "char \<Rightarrow> bool" where
  "isUpper c = (65 \<le> charCode c \<and> charCode c \<le> 90)"

definition isLower :: "char \<Rightarrow> bool" where
  "isLower c = (97 \<le> charCode c \<and> charCode c \<le> 122)"

definition toLowerCase :: "char \<Rightarrow> char" where
  "toLowerCase c = (if isUpper c then char_of (charCode c + 32) else c)"

definition toUpperCase :: "char \<Rightarrow> char" where
  "toUpperCase c = (if isLower c then char_of (charCode c - 32) else c)"

definition isWordChar :: "char \<Rightarrow> bool" where
  "isWordChar c = (isDigit c \<or> isUpper c \<or> isLower c \<or> c = CHR ''_'')"

definition isSpace :: "char \<Rightarrow> bool" where
  "isSpace c = ((9 \<le> charCode c \<and> charCode c \<le> 13) \<or> charCode c = 32
                 \<or> charCode c = 160)"

definition isHexDigit :: "char \<Rightarrow> bool" where
  "isHexDigit c = (isDigit c
     \<or> (65 \<le> charCode c \<and> charCode c \<le> 70)
     \<or> (97 \<le> charCode c \<and> charCode c \<le> 102))"

text \<open>\<^verbatim>\<open>s.trim()\<close>\<close>

definition trim :: "string \<Rightarrow> string" where
  "trim s = rev (dropWhile isSpace (rev (dropWhile isSpace s)))"

section \<open>Record identifiers\<close>

text \<open>
  \<^verbatim>\<open>_id\<close> and \<^verbatim>\<open>jobInfo.manager\<close> are ObjectIds. An ObjectId prints
  (\<^verbatim>\<open>toString()\<close>) as 24 lower-case hexadecimal digits; the store holds that rendering.
  A string is cast to an ObjectId when it is handed to \<^verbatim>\<open>findById\<close> or written to an
  ObjectId path: 24 hexadecimal digits of either case denote the ObjectId that prints as
  their lower-case form, and any other string is a \<^verbatim>\<open>CastError\<close>.
  The route's own identifier check (\<^verbatim>\<open>validateEmployeeId\<close>) accepts exactly the
  strings matching \<^verbatim>\<open>/^[0-9a-fA-F]{24}$/\<close>.
\<close>

type_synonym oid = string

definition isObjectIdString :: "string \<Rightarrow> bool" where
  "isObjectIdString s = (length s = 24 \<and> list_all isHexDigit s)"

definition castObjectId :: "string \<Rightarrow> oid option" where
  "castObjectId s = (if isObjectIdString s then Some (map toLowerCase s) else None)"

section \<open>The Employee document (models/Employee.js)\<close>

text \<open>
  Dates are milliseconds relative to the epoch. A path that is absent is \<open>None\<close>.
  Stored \<^verbatim>\<open>_id\<close>, \<^verbatim>\<open>jobInfo.manager\<close>, \<^verbatim>\<open>createdBy\<close> and \<^verbatim>\<open>updatedBy\<close> hold the
  rendering of an ObjectId; in a request body the same paths hold the string the client
  sent.
\<close>

type_synonym date = int

record addressInfo =
  street :: "string option"
  city :: "string option"
  state :: "string option"
  zipCode :: "string option"
  country :: "string option"

record personalInfo =
  firstName :: "string option"
  lastName :: "string option"
  email :: "string option"
  phone :: "string option"
  dateOfBirth :: "date option"
  address :: "addressInfo option"

record jobInfo =
  title :: "string option"
  department :: "string option"
  manager :: "string option"
  startDate :: "date option"
  salary :: "int option"
  employmentType :: "string option"

record employee =
  oid :: oid
  employeeId :: string
  personalInfo :: personalInfo
  jobInfo :: jobInfo
  status :: string
  createdAt :: date
  updatedAt :: date
  createdBy :: oid
  updatedBy :: "oid option"

text \<open>The collection, in insertion order.\<close>

type_synonym store = "employee list"

datatype storeError = CastError | ValidationError | DuplicateKey string

text \<open>
  \<^verbatim>\<open>Employee.findById(id)\<close>: the argument is cast, then the document with that
  \<^verbatim>\<open>_id\<close> is returned, or \<^verbatim>\<open>null\<close>.
\<close>

definition findById :: "store \<Rightarrow> string \<Rightarrow> storeError + employee option" where
  "findById db s = (case castObjectId s of
       None \<Rightarrow> Inl CastError
     | Some i \<Rightarrow> Inr (find (\<lambda>e. oid e = i) db))"

section \<open>The walk along the manager references (middleware/validation.js)\<close>

text \<open>The manager references held by the documents of the collection.\<close>

definition managerRefs :: "store \<Rightarrow> string set" where
  "managerRefs db = set (List.map_filter (\<lambda>r. manager (jobInfo r)) db)"

text \<open>
  \<^verbatim>\<open>checkCircularHierarchy(employeeId, managerId, visited = new Set())\<close>.
  The visited set holds the strings as they were passed; \<^verbatim>\<open>===\<close> compares strings.
  An exception of \<^verbatim>\<open>findById\<close> propagates to the caller. The parameter
  \<^verbatim>\<open>employeeId\<close> is written \<open>eid\<close>, the name being taken by the field of the document.
\<close>

function checkCircularHierarchy ::
  "store \<Rightarrow> string \<Rightarrow> string \<Rightarrow> string set \<Rightarrow> storeError + bool" where
  "checkCircularHierarchy db eid managerId visited =
     (if managerId \<in> visited then Inr True
      else if managerId = eid then Inr True
      else (case findById db managerId of
              Inl err \<Rightarrow> Inl err
            | Inr None \<Rightarrow> Inr False
            | Inr (Some m) \<Rightarrow>
                (case manager (jobInfo m) of
                   None \<Rightarrow> Inr False
                 | Some next \<Rightarrow>
                     checkCircularHierarchy db eid next (insert managerId visited))))"
  by pat_completeness auto
termination
proof (relation "measure (\<lambda>(db, e, m, V). card (insert m (managerRefs db) - V))")
  show "wf (measure (\<lambda>(db, e, m, V). card (insert m (managerRefs db) - V)))"
    by simp
next
  fix db :: store and eid managerId :: string and visited :: "string set"
    and found :: "employee option" and m :: employee and nxt :: string
  assume nv: "managerId \<notin> visited"
    and f: "findById db managerId = Inr found" and s: "found = Some m"
    and mg: "manager (jobInfo m) = Some nxt"
  from f s have "m \<in> set db"
    by (auto simp: findById_def find_Some_iff split: option.splits)
  with mg have "nxt \<in> managerRefs db"
    by (force simp: managerRefs_def map_filter_def)
  then have "insert nxt (managerRefs db) - insert managerId visited
               = managerRefs db - insert managerId visited"
    by auto
  moreover have "managerRefs db - insert managerId visited
                   \<subset> insert managerId (managerRefs db) - visited"
    using nv by auto
  moreover have "finite (insert managerId (managerRefs db) - visited)"
    by (simp add: managerRefs_def)
  ultimately have "card (insert nxt (managerRefs db) - insert managerId visited)
                     < card (insert managerId (managerRefs db) - visited)"
    by (simp add: psubset_card_mono)
  then show "((db, eid, nxt, insert managerId visited), (db, eid, managerId, visited))
        \<in> measure (\<lambda>(db, e, m, V). card (insert m (managerRefs db) - V))"
    by simp
qed

text \<open>
  The number of manager links the walk follows, that is, the number of recursive calls
  \<^verbatim>\<open>checkCircularHierarchy\<close> makes from the same arguments.
\<close>

function walkSteps :: "store \<Rightarrow> string \<Rightarrow> string \<Rightarrow> string set \<Rightarrow> nat" where
  "walkSteps db eid managerId visited =
     (if managerId \<in> visited then 0
      else if managerId = eid then 0
      else (case findById db managerId of
              Inl err \<Rightarrow> 0
            | Inr None \<Rightarrow> 0
            | Inr (Some m) \<Rightarrow>
                (case manager (jobInfo m) of
                   None \<Rightarrow> 0
                 | Some next \<Rightarrow>
                     Suc (walkSteps db eid next (insert managerId visited)))))"
  by pat_completeness auto
termination
proof (relation "measure (\<lambda>(db, e, m, V). card (insert m (managerRefs db) - V))")
  show "wf (measure (\<lambda>(db, e, m, V). card (insert m (managerRefs db) - V)))"
    by simp
next
  fix db :: store and eid managerId :: string and visited :: "string set"
    and found :: "employee option" and m :: employee and nxt :: string
  assume nv: "managerId \<notin> visited"
    and f: "findById db managerId = Inr found" and s: "found = Some m"
    and mg: "manager (jobInfo m) = Some nxt"
  from f s have "m \<in> set db"
    by (auto simp: findById_def find_Some_iff split: option.splits)
  with mg have "nxt \<in> managerRefs db"
    by (force simp: managerRefs_def map_filter_def)
  then have "insert nxt (managerRefs db) - insert managerId visited
               = managerRefs db - insert managerId visited"
    by auto
  moreover have "managerRefs db - insert managerId visited
                   \<subset> insert managerId (managerRefs db) - visited"
    using nv by auto
  moreover have "finite (insert managerId (managerRefs db) - visited)"
    by (simp add: managerRefs_def)
  ultimately have "card (insert nxt (managerRefs db) - insert managerId visited)
                     < card (insert managerId (managerRefs db) - visited)"
    by (simp add: psubset_card_mono)
  then show "((db, eid, nxt, insert managerId visited), (db, eid, managerId, visited))
        \<in> measure (\<lambda>(db, e, m, V). card (insert m (managerRefs db) - V))"
    by simp
qed

declare checkCircularHierarchy.simps [simp del]
declare walkSteps.simps [simp del]

section \<open>Requests and responses\<close>

text \<open>
  The request body as the routes see it, that is, after \<^verbatim>\<open>express.json()\<close> and after
  \<^verbatim>\<open>sanitizeInput\<close> (modelled on JSON values in its own section below). The eight
  top-level paths of the schema are each present or absent; \<^verbatim>\<open>personalInfo\<close> and
  \<^verbatim>\<open>jobInfo\<close>, when present, are objects. Every other key of the body is listed in
  \<open>b_otherKeys\<close>: a dotted path such as \<^verbatim>\<open>'jobInfo.manager'\<close>, an update operator such as
  \<^verbatim>\<open>$set\<close>, a key the schema does not know. No middleware of this repository reads those
  keys (\<^verbatim>\<open>validateManagerAssignment\<close> reads \<^verbatim>\<open>req.body.jobInfo.manager\<close> only), but the
  routes spread the whole body into the document they write, so the store applies them.
  Strings of the paths other than \<^verbatim>\<open>employeeId\<close> are taken in the form in which the schema
  stores them: the setters \<^verbatim>\<open>trim\<close> and \<^verbatim>\<open>lowercase\<close> of those paths are not part of the
  model.
\<close>

record payload =
  b_employeeId :: "string option"
  b_personalInfo :: "personalInfo option"
  b_jobInfo :: "jobInfo option"
  b_status :: "string option"
  b_createdAt :: "date option"
  b_updatedAt :: "date option"
  b_createdBy :: "string option"
  b_updatedBy :: "string option"
  b_otherKeys :: "string list"

text \<open>One entry of \<^verbatim>\<open>validationResult(req).array()\<close>: field and message.\<close>

type_synonym fieldError = "string \<times> string"

record user =
  userId :: oid
  username :: string
  role :: string

text \<open>
  \<^verbatim>\<open>req.session.userId\<close> is absent (\<open>NoSession\<close>) or present, and then
  \<^verbatim>\<open>User.findById\<close> yields the user document or \<^verbatim>\<open>null\<close>.
\<close>

datatype session = NoSession | SessionUser "user option"

text \<open>
  A request as the admin router receives it. The path is relative to the mount point
  \<^verbatim>\<open>/api/admin\<close>. What the collaborators outside this repository contribute to the
  handling of one request is part of the request: the errors collected by the
  express-validator chains of the matched route (\<open>fieldErrors\<close>), the errors of the
  schema's validators other than \<^verbatim>\<open>required\<close> and those of \<^verbatim>\<open>employeeId\<close>
  (\<open>schemaErrors\<close>: \<^verbatim>\<open>enum\<close>, \<^verbatim>\<open>match\<close>, lengths, ranges and dates), what the store
  makes of the keys in \<open>b_otherKeys\<close> (\<open>otherKeysEffect\<close>: the document they lead to, or
  an error), the clock (\<open>now\<close>), the value of \<^verbatim>\<open>Math.floor(Math.random() * 10000)\<close>
  (\<open>randomDraw\<close>) and the ObjectId issued to a new document (\<open>issuedId\<close>).
\<close>

record request =
  reqMethod :: string
  reqPath :: string
  reqSession :: session
  reqBody :: payload
  fieldErrors :: "fieldError list"
  schemaErrors :: "string list"
  otherKeysEffect :: "employee \<Rightarrow> storeError + employee"
  now :: date
  randomDraw :: nat
  issuedId :: oid

record statistics =
  totalEmployees :: nat
  activeEmployees :: nat
  inactiveEmployees :: nat
  terminatedEmployees :: nat
  recentHires :: nat
  departmentStats :: "(string option \<times> nat) list"
  employmentTypeStats :: "(string option \<times> nat) list"

record pagination =
  currentPage :: nat
  totalPages :: nat
  totalCount :: nat
  hasNextPage :: bool
  hasPrevPage :: bool

text \<open>The JSON bodies the routes send, by shape.\<close>

datatype body =
    Message string
  | MessageError string string
  | ValidationFailed "fieldError list"
  | EmployeeData string "employee option"
  | EmployeeList string "employee list" pagination
  | ManagedEmployees string nat
  | DeletedEmployee string oid string string
  | StatisticsData string statistics

datatype response = Response nat body

section \<open>The validation middleware (middleware/validation.js)\<close>

text \<open>\<^verbatim>\<open>validateEmployeeId\<close>: \<open>None\<close> is \<^verbatim>\<open>next()\<close>.\<close>

definition validateEmployeeId :: "string \<Rightarrow> response option" where
  "validateEmployeeId ident =
     (if \<not> isObjectIdString ident
      then Some (Response 400 (MessageError ''Invalid employee ID format''
                   ''Employee ID must be a valid MongoDB ObjectId''))
      else None)"

text \<open>
  \<^verbatim>\<open>validateManagerAssignment\<close>. \<open>paramsId\<close> is \<^verbatim>\<open>req.params.id\<close>, absent on the create
  route. An empty string is falsy. An exception (the cast of a malformed identifier) is
  caught and answered with 500.
\<close>

definition validateManagerAssignment ::
  "store \<Rightarrow> string option \<Rightarrow> payload \<Rightarrow> response option" where
  "validateManagerAssignment db paramsId b =
     (case b_jobInfo b of
        None \<Rightarrow> None
      | Some ji \<Rightarrow>
         (case manager ji of
            None \<Rightarrow> None
          | Some managerId \<Rightarrow>
             if managerId = [] then None
             else (case findById db managerId of
                Inl err \<Rightarrow> Some (Response 500 (Message ''Manager validation failed''))
              | Inr None \<Rightarrow>
                  Some (Response 400 (MessageError ''Invalid manager assignment''
                          ''Specified manager does not exist''))
              | Inr (Some m) \<Rightarrow>
                  if status m \<noteq> ''active''
                  then Some (Response 400 (MessageError ''Invalid manager assignment''
                               ''Specified manager is not active''))
                  else (case paramsId of
                     None \<Rightarrow> None
                   | Some pid \<Rightarrow>
                      if pid = [] then None
                      else if managerId = pid
                      then Some (Response 400 (MessageError ''Invalid manager assignment''
                                   ''Employee cannot be their own manager''))
                      else (case checkCircularHierarchy db pid managerId {} of
                         Inl err \<Rightarrow> Some (Response 500 (Message ''Manager validation failed''))
                       | Inr isCircular \<Rightarrow>
                          if isCircular
                          then Some (Response 400 (MessageError ''Invalid manager assignment''
                                 ''This assignment would create a circular management hierarchy''))
                          else None)))))"

text \<open>\<^verbatim>\<open>handleValidationErrors\<close>\<close>

definition handleValidationErrors :: "request \<Rightarrow> response option" where
  "handleValidationErrors req =
     (if fieldErrors req \<noteq> [] then Some (Response 400 (ValidationFailed (fieldErrors req)))
      else None)"


section \<open>Persistence (models/Employee.js and the store)\<close>

text \<open>Decimal rendering of a number (\<^verbatim>\<open>Number.prototype.toString\<close> on a natural number).\<close>

fun decimal :: "nat \<Rightarrow> string" where
  "decimal n = (if n < 10 then [char_of (48 + n)]
                else decimal (n div 10) @ [char_of (48 + n mod 10)])"

declare decimal.simps [simp del]

text \<open>\<^verbatim>\<open>s.padStart(4, '0')\<close>\<close>

definition padStart4 :: "string \<Rightarrow> string" where
  "padStart4 s = replicate (4 - length s) (CHR ''0'') @ s"

text \<open>
  \<^verbatim>\<open>generateEmployeeId()\<close> of the admin routes; \<open>r\<close> is the value of
  \<^verbatim>\<open>Math.floor(Math.random() * 10000)\<close>.
\<close>

definition generateEmployeeId :: "nat \<Rightarrow> string" where
  "generateEmployeeId r = ''EMP'' @ decimal r"

text \<open>
  The schema's \<^verbatim>\<open>employeeId\<close> path: the setters \<^verbatim>\<open>trim\<close> and \<^verbatim>\<open>uppercase\<close>, then the
  validators \<^verbatim>\<open>required\<close> and \<^verbatim>\<open>match: /^EMP\d{4}$/\<close>.
\<close>

definition setEmployeeId :: "string \<Rightarrow> string" where
  "setEmployeeId s = map toUpperCase (trim s)"

definition matchesEmployeeId :: "string \<Rightarrow> bool" where
  "matchesEmployeeId s = (length s = 7 \<and> take 3 s = ''EMP'' \<and> list_all isDigit (drop 3 s))"

text \<open>The number an identifier of that format carries.\<close>

definition digitsValue :: "string \<Rightarrow> nat" where
  "digitsValue ds = foldl (\<lambda>acc c. 10 * acc + (charCode c - 48)) 0 ds"

definition employeeNumber :: "string \<Rightarrow> nat" where
  "employeeNumber s = digitsValue (drop 3 s)"

text \<open>
  The second \<^verbatim>\<open>pre('save')\<close> hook: when the document has no \<^verbatim>\<open>employeeId\<close>, the
  document with the greatest \<^verbatim>\<open>employeeId\<close> (string order) is looked up, \<^verbatim>\<open>'EMP'\<close> is
  removed from it, \<^verbatim>\<open>parseInt\<close> reads the number, and the successor is padded to four
  digits. \<^verbatim>\<open>parseInt\<close> skips leading white space, reads an optional sign and the longest
  run of digits, and is \<^verbatim>\<open>NaN\<close> (\<open>None\<close>) without a digit.
\<close>

fun removeFirst :: "string \<Rightarrow> string \<Rightarrow> string" where
  "removeFirst pat [] = []"
| "removeFirst pat (c # cs) =
     (if take (length pat) (c # cs) = pat then drop (length pat) (c # cs)
      else c # removeFirst pat cs)"

definition parseInt :: "string \<Rightarrow> int option" where
  "parseInt s =
     (let t = dropWhile isSpace s;
          neg = (t \<noteq> [] \<and> hd t = CHR ''-'');
          u = (if t \<noteq> [] \<and> (hd t = CHR ''-'' \<or> hd t = CHR ''+'') then tl t else t);
          ds = takeWhile isDigit u
      in if ds = [] then None
         else Some (if neg then - int (digitsValue ds) else int (digitsValue ds)))"

definition lastEmployeeId :: "store \<Rightarrow> string option" where
  "lastEmployeeId db = (case db of [] \<Rightarrow> None
                        | d # ds \<Rightarrow> Some (fold max (map employeeId ds) (employeeId d)))"

definition sequentialEmployeeId :: "store \<Rightarrow> string" where
  "sequentialEmployeeId db =
     (case lastEmployeeId db of
        None \<Rightarrow> ''EMP'' @ padStart4 (decimal 1)
      | Some l \<Rightarrow>
          if l = [] then ''EMP'' @ padStart4 (decimal 1)
          else (case parseInt (removeFirst ''EMP'' l) of
                  None \<Rightarrow> ''EMP'' @ padStart4 ''NaN''
                | Some k \<Rightarrow>
                    ''EMP'' @ padStart4 ((if k + 1 < 0 then ''-'' else [])
                                          @ decimal (nat (abs (k + 1))))))"

text \<open>Casting the ObjectId paths of a body.\<close>

definition castOptionalId :: "string option \<Rightarrow> storeError + oid option" where
  "castOptionalId x = (case x of
       None \<Rightarrow> Inr None
     | Some s \<Rightarrow> (case castObjectId s of None \<Rightarrow> Inl CastError | Some i \<Rightarrow> Inr (Some i)))"

definition castJobInfo :: "jobInfo \<Rightarrow> storeError + jobInfo" where
  "castJobInfo ji = (case castOptionalId (manager ji) of
       Inl err \<Rightarrow> Inl err
     | Inr m \<Rightarrow> Inr (ji\<lparr>manager := m\<rparr>))"

text \<open>The schema's defaults, applied when a document is constructed.\<close>

definition defaultAddress :: "addressInfo option \<Rightarrow> addressInfo" where
  "defaultAddress a = (case a of
       None \<Rightarrow> \<lparr>street = None, city = None, state = None, zipCode = None,
                 country = Some ''United States''\<rparr>
     | Some ad \<Rightarrow> (case country ad of None \<Rightarrow> ad\<lparr>country := Some ''United States''\<rparr>
                                     | Some c \<Rightarrow> ad))"

definition defaultJobInfo :: "jobInfo \<Rightarrow> jobInfo" where
  "defaultJobInfo ji = (case employmentType ji of
       None \<Rightarrow> ji\<lparr>employmentType := Some ''full-time''\<rparr>
     | Some t \<Rightarrow> ji)"

definition emptyJobInfo :: jobInfo where
  "emptyJobInfo = \<lparr>title = None, department = None, manager = None, startDate = None,
                   salary = None, employmentType = None\<rparr>"

text \<open>
  The \<^verbatim>\<open>required\<close> validators of the schema. For a string, \<^verbatim>\<open>required\<close> refuses an
  absent value and the empty string.
\<close>

definition requiredString :: "string option \<Rightarrow> bool" where
  "requiredString x = (case x of None \<Rightarrow> False | Some s \<Rightarrow> s \<noteq> [])"

definition requiredPersonalInfo :: "personalInfo \<Rightarrow> bool" where
  "requiredPersonalInfo p =
     (requiredString (firstName p) \<and> requiredString (lastName p) \<and> requiredString (email p))"

definition requiredJobInfo :: "jobInfo \<Rightarrow> bool" where
  "requiredJobInfo j =
     (requiredString (title j) \<and> requiredString (department j) \<and> startDate j \<noteq> None)"

text \<open>
  The keys of the body outside the eight top-level paths, applied to the document that
  the eight lead to. \<^verbatim>\<open>_id\<close> is immutable.
\<close>

definition applyOtherKeys :: "request \<Rightarrow> employee \<Rightarrow> storeError + employee" where
  "applyOtherKeys req d =
     (if b_otherKeys (reqBody req) = [] then Inr d
      else (case otherKeysEffect req d of
              Inl err \<Rightarrow> Inl err
            | Inr d' \<Rightarrow> Inr (d'\<lparr>oid := oid d\<rparr>)))"

text \<open>
  \<^verbatim>\<open>new Employee(data).save()\<close>, with \<^verbatim>\<open>data\<close> the body overridden in \<^verbatim>\<open>employeeId\<close>,
  \<^verbatim>\<open>createdBy\<close> and \<^verbatim>\<open>updatedBy\<close>. The document is built with the schema's defaults;
  validation (the casts, \<^verbatim>\<open>required\<close>, the format of \<^verbatim>\<open>employeeId\<close>, the other
  validators) runs before the \<^verbatim>\<open>pre('save')\<close> hooks of the schema; a failed cast is a
  validation error. The hooks set \<^verbatim>\<open>updatedAt\<close> and, for a document without
  \<^verbatim>\<open>employeeId\<close>, the sequential identifier. The unique indexes on \<^verbatim>\<open>_id\<close>,
  \<^verbatim>\<open>employeeId\<close> and \<^verbatim>\<open>personalInfo.email\<close> are checked at the insert.
\<close>

definition save ::
  "store \<Rightarrow> request \<Rightarrow> string \<Rightarrow> oid \<Rightarrow> personalInfo \<Rightarrow> storeError + employee \<times> store" where
  "save db req empId actor pinfo =
     (let b = reqBody req;
          ji = (case b_jobInfo b of None \<Rightarrow> emptyJobInfo | Some j \<Rightarrow> j)
      in case castJobInfo ji of
           Inl err \<Rightarrow> Inl ValidationError
         | Inr ji' \<Rightarrow>
            (case applyOtherKeys req
                    \<lparr>oid = issuedId req,
                     employeeId = setEmployeeId empId,
                     personalInfo = pinfo\<lparr>address := Some (defaultAddress (address pinfo))\<rparr>,
                     jobInfo = defaultJobInfo ji',
                     status = (case b_status b of None \<Rightarrow> ''active'' | Some st \<Rightarrow> st),
                     createdAt = (case b_createdAt b of None \<Rightarrow> now req | Some t \<Rightarrow> t),
                     updatedAt = (case b_updatedAt b of None \<Rightarrow> now req | Some t \<Rightarrow> t),
                     createdBy = actor,
                     updatedBy = Some actor\<rparr> of
               Inl err \<Rightarrow> Inl ValidationError
             | Inr built \<Rightarrow>
                if \<not> matchesEmployeeId (employeeId built) then Inl ValidationError
                else if \<not> requiredPersonalInfo (personalInfo built) then Inl ValidationError
                else if \<not> requiredJobInfo (jobInfo built) then Inl ValidationError
                else if schemaErrors req \<noteq> [] then Inl ValidationError
                else
                  let doc = built
                        \<lparr>updatedAt := now req,
                         employeeId := (if employeeId built = [] then sequentialEmployeeId db
                                        else employeeId built)\<rparr>
                  in if oid doc \<in> set (map oid db) then Inl (DuplicateKey ''_id'')
                     else if employeeId doc \<in> set (map employeeId db)
                     then Inl (DuplicateKey ''employeeId'')
                     else if email (personalInfo doc)
                               \<in> set (map (\<lambda>d. email (personalInfo d)) db)
                     then Inl (DuplicateKey ''personalInfo.email'')
                     else Inr (doc, db @ [doc])))"

text \<open>
  \<^verbatim>\<open>Employee.findByIdAndUpdate(id, update, { new: true, runValidators: true })\<close>, the
  update being the body overridden in \<^verbatim>\<open>updatedBy\<close>. Each of the eight top-level keys
  that the update carries is set (\<^verbatim>\<open>$set\<close>) to the value given, an object as a whole;
  the paths of the document that no key names are left as they are. The update
  validators run on the paths the update names; an object given for \<^verbatim>\<open>personalInfo\<close> or
  \<^verbatim>\<open>jobInfo\<close> names all the paths below it, so that the \<^verbatim>\<open>required\<close> ones among them
  must be in the object. No \<^verbatim>\<open>save\<close> hook runs and the schema declares no
  \<^verbatim>\<open>timestamps\<close>.
\<close>

definition applyUpdate :: "payload \<Rightarrow> jobInfo option \<Rightarrow> oid option \<Rightarrow> oid \<Rightarrow> employee \<Rightarrow> employee" where
  "applyUpdate b ji cb actor d =
     d\<lparr>employeeId := (case b_employeeId b of None \<Rightarrow> employeeId d | Some s \<Rightarrow> setEmployeeId s),
       personalInfo := (case b_personalInfo b of None \<Rightarrow> personalInfo d | Some p \<Rightarrow> p),
       jobInfo := (case ji of None \<Rightarrow> jobInfo d | Some j \<Rightarrow> j),
       status := (case b_status b of None \<Rightarrow> status d | Some st \<Rightarrow> st),
       createdAt := (case b_createdAt b of None \<Rightarrow> createdAt d | Some t \<Rightarrow> t),
       updatedAt := (case b_updatedAt b of None \<Rightarrow> updatedAt d | Some t \<Rightarrow> t),
       createdBy := (case cb of None \<Rightarrow> createdBy d | Some c \<Rightarrow> c),
       updatedBy := Some actor\<rparr>"

fun replaceById :: "oid \<Rightarrow> employee \<Rightarrow> store \<Rightarrow> store" where
  "replaceById i d' [] = []"
| "replaceById i d' (d # ds) = (if oid d = i then d' # ds else d # replaceById i d' ds)"

definition findByIdAndUpdate ::
  "store \<Rightarrow> request \<Rightarrow> string \<Rightarrow> oid \<Rightarrow> storeError + employee option \<times> store" where
  "findByIdAndUpdate db req ident actor =
     (let b = reqBody req in
      case castObjectId ident of
        None \<Rightarrow> Inl CastError
      | Some i \<Rightarrow>
      (case (case b_jobInfo b of None \<Rightarrow> Inr None
            | Some j \<Rightarrow> (case castJobInfo j of Inl err \<Rightarrow> Inl err | Inr j' \<Rightarrow> Inr (Some j'))) of
        Inl err \<Rightarrow> Inl CastError
      | Inr ji \<Rightarrow>
         (case castOptionalId (b_createdBy b) of
            Inl err \<Rightarrow> Inl CastError
          | Inr cb \<Rightarrow>
             if (case b_employeeId b of None \<Rightarrow> False
                 | Some s \<Rightarrow> \<not> matchesEmployeeId (setEmployeeId s))
             then Inl ValidationError
             else if (case b_personalInfo b of None \<Rightarrow> False
                      | Some p \<Rightarrow> \<not> requiredPersonalInfo p)
             then Inl ValidationError
             else if (case b_jobInfo b of None \<Rightarrow> False
                      | Some j \<Rightarrow> \<not> requiredJobInfo j)
             then Inl ValidationError
             else if schemaErrors req \<noteq> [] then Inl ValidationError
             else (case find (\<lambda>d. oid d = i) db of
                None \<Rightarrow> Inr (None, db)
              | Some d \<Rightarrow>
                 (case applyOtherKeys req (applyUpdate b ji cb actor d) of
                    Inl err \<Rightarrow> Inl err
                  | Inr d' \<Rightarrow>
                     let others = remove1 d db
                     in if employeeId d' \<in> set (map employeeId others)
                        then Inl (DuplicateKey ''employeeId'')
                        else if email (personalInfo d')
                                  \<in> set (map (\<lambda>x. email (personalInfo x)) others)
                        then Inl (DuplicateKey ''personalInfo.email'')
                        else Inr (Some d', replaceById i d' db))))))"

text \<open>\<^verbatim>\<open>Employee.findByIdAndDelete(id)\<close>\<close>

fun deleteById :: "oid \<Rightarrow> store \<Rightarrow> store" where
  "deleteById i [] = []"
| "deleteById i (d # ds) = (if oid d = i then ds else d # deleteById i ds)"


section \<open>The admin routes (routes/admin.js)\<close>

text \<open>The virtual \<^verbatim>\<open>fullName\<close>: a template string, so an absent name prints as \<^verbatim>\<open>undefined\<close>.\<close>

definition fullName :: "employee \<Rightarrow> string" where
  "fullName d = (case firstName (personalInfo d) of None \<Rightarrow> ''undefined'' | Some f \<Rightarrow> f)
                 @ '' '' @
                (case lastName (personalInfo d) of None \<Rightarrow> ''undefined'' | Some l \<Rightarrow> l)"

text \<open>\<^verbatim>\<open>requireAdmin\<close>: the user document becomes \<^verbatim>\<open>req.user\<close>.\<close>

definition requireAdmin :: "session \<Rightarrow> response + user" where
  "requireAdmin se = (case se of
       NoSession \<Rightarrow> Inl (Response 401 (Message ''Authentication required''))
     | SessionUser None \<Rightarrow> Inl (Response 401 (Message ''User not found''))
     | SessionUser (Some u) \<Rightarrow>
         if role u \<noteq> ''admin'' then Inl (Response 403 (Message ''Admin access required''))
         else Inr u)"

text \<open>\<^verbatim>\<open>GET /employees/:id\<close>\<close>

definition getEmployee :: "store \<Rightarrow> string \<Rightarrow> response \<times> store" where
  "getEmployee db ident =
     (case validateEmployeeId ident of
        Some r \<Rightarrow> (r, db)
      | None \<Rightarrow>
         (case findById db ident of
            Inl err \<Rightarrow> (Response 400 (Message ''Invalid employee ID format''), db)
          | Inr None \<Rightarrow> (Response 404 (Message ''Employee not found''), db)
          | Inr (Some e) \<Rightarrow>
              (Response 200 (EmployeeData ''Employee retrieved successfully'' (Some e)), db)))"

text \<open>
  \<^verbatim>\<open>POST /employees\<close>. The chain is \<^verbatim>\<open>validateManagerAssignment\<close>,
  \<^verbatim>\<open>handleValidationErrors\<close>, then the handler. Reading
  \<^verbatim>\<open>req.body.personalInfo.email\<close> of a body without \<^verbatim>\<open>personalInfo\<close> throws, which the
  handler answers with 500. An empty \<^verbatim>\<open>employeeId\<close> is falsy.
\<close>

definition postEmployees :: "store \<Rightarrow> oid \<Rightarrow> request \<Rightarrow> response \<times> store" where
  "postEmployees db actor req =
     (let b = reqBody req in
      case validateManagerAssignment db None b of
        Some r \<Rightarrow> (r, db)
      | None \<Rightarrow>
      (case handleValidationErrors req of
        Some r \<Rightarrow> (r, db)
      | None \<Rightarrow>
      (case b_personalInfo b of
        None \<Rightarrow> (Response 500 (Message ''Failed to create employee''), db)
      | Some pinfo \<Rightarrow>
         if find (\<lambda>d. email (personalInfo d) = email pinfo) db \<noteq> None
         then (Response 400 (Message ''Employee with this email already exists''), db)
         else
           let empId = (case b_employeeId b of
                          None \<Rightarrow> generateEmployeeId (randomDraw req)
                        | Some s \<Rightarrow> if s = [] then generateEmployeeId (randomDraw req) else s)
           in (case save db req empId actor pinfo of
                 Inl (DuplicateKey k) \<Rightarrow>
                   if k = ''employeeId''
                   then (Response 400 (Message ''Employee ID already exists''), db)
                   else if k = ''personalInfo.email''
                   then (Response 400 (Message ''Employee with this email already exists''), db)
                   else (Response 500 (Message ''Failed to create employee''), db)
               | Inl err \<Rightarrow> (Response 500 (Message ''Failed to create employee''), db)
               | Inr (e, db') \<Rightarrow>
                   (Response 201 (EmployeeData ''Employee created successfully'' (Some e)), db')))))"

text \<open>
  \<^verbatim>\<open>PUT /employees/:id\<close>. The chain is \<^verbatim>\<open>validateEmployeeId\<close>,
  \<^verbatim>\<open>validateManagerAssignment\<close>, \<^verbatim>\<open>handleValidationErrors\<close>, then the handler.
\<close>

definition emailConflict :: "store \<Rightarrow> string \<Rightarrow> payload \<Rightarrow> bool" where
  "emailConflict db ident b =
     (case b_personalInfo b of
        None \<Rightarrow> False
      | Some p \<Rightarrow>
         (case email p of
            None \<Rightarrow> False
          | Some e \<Rightarrow>
             if e = [] then False
             else find (\<lambda>d. email (personalInfo d) = Some e \<and> Some (oid d) \<noteq> castObjectId ident) db
                    \<noteq> None))"

definition putEmployee :: "store \<Rightarrow> oid \<Rightarrow> string \<Rightarrow> request \<Rightarrow> response \<times> store" where
  "putEmployee db actor ident req =
     (case validateEmployeeId ident of
        Some r \<Rightarrow> (r, db)
      | None \<Rightarrow>
      (case validateManagerAssignment db (Some ident) (reqBody req) of
        Some r \<Rightarrow> (r, db)
      | None \<Rightarrow>
      (case handleValidationErrors req of
        Some r \<Rightarrow> (r, db)
      | None \<Rightarrow>
      (case findById db ident of
        Inl err \<Rightarrow> (Response 400 (Message ''Invalid employee ID format''), db)
      | Inr None \<Rightarrow> (Response 404 (Message ''Employee not found''), db)
      | Inr (Some existing) \<Rightarrow>
         if emailConflict db ident (reqBody req)
         then (Response 400 (Message ''Another employee with this email already exists''), db)
         else (case findByIdAndUpdate db req ident actor of
                 Inl CastError \<Rightarrow> (Response 400 (Message ''Invalid employee ID format''), db)
               | Inl ValidationError \<Rightarrow> (Response 500 (Message ''Failed to update employee''), db)
               | Inl (DuplicateKey k) \<Rightarrow>
                   if k = ''personalInfo.email''
                   then (Response 400
                           (Message ''Another employee with this email already exists''), db)
                   else (Response 500 (Message ''Failed to update employee''), db)
               | Inr (e, db') \<Rightarrow>
                   (Response 200 (EmployeeData ''Employee updated successfully'' e), db'))))))"

text \<open>\<^verbatim>\<open>DELETE /employees/:id\<close>\<close>

definition managedBy :: "store \<Rightarrow> string \<Rightarrow> employee list" where
  "managedBy db ident = filter (\<lambda>d. manager (jobInfo d) = castObjectId ident) db"

definition deleteEmployee :: "store \<Rightarrow> string \<Rightarrow> response \<times> store" where
  "deleteEmployee db ident =
     (case validateEmployeeId ident of
        Some r \<Rightarrow> (r, db)
      | None \<Rightarrow>
      (case findById db ident of
        Inl err \<Rightarrow> (Response 400 (Message ''Invalid employee ID format''), db)
      | Inr None \<Rightarrow> (Response 404 (Message ''Employee not found''), db)
      | Inr (Some e) \<Rightarrow>
         let managedEmployees = managedBy db ident in
         if length managedEmployees > 0
         then (Response 400 (ManagedEmployees
                 ''Cannot delete employee who is managing other employees''
                 (length managedEmployees)), db)
         else (Response 200 (DeletedEmployee ''Employee deleted successfully''
                 (oid e) (employeeId e) (fullName e)),
               deleteById (oid e) db)))"


text \<open>
  \<^verbatim>\<open>GET /employees\<close> for a request without a query string: page 1, limit 10, sorted
  by \<^verbatim>\<open>createdAt\<close> descending, no filter.
\<close>

definition getEmployees :: "store \<Rightarrow> response \<times> store" where
  "getEmployees db =
     (let page = 1; limit = 10;
          total = length db;
          pages = (total + limit - 1) div limit
      in (Response 200 (EmployeeList ''Employees retrieved successfully''
            (take limit (drop ((page - 1) * limit) (sort_key (\<lambda>d. - createdAt d) db)))
            \<lparr>currentPage = page, totalPages = pages, totalCount = total,
             hasNextPage = (page < pages), hasPrevPage = (page > 1)\<rparr>), db))"

text \<open>
  The handler registered for \<^verbatim>\<open>GET /employees/stats\<close>. A \<^verbatim>\<open>$group\<close> stage yields one
  entry for each distinct value with its count; \<^verbatim>\<open>$sort: { count: -1 }\<close> orders them.
  Thirty days are 2592000000 milliseconds.
\<close>

definition groupCount :: "'a list \<Rightarrow> ('a \<times> nat) list" where
  "groupCount ks = sort_key (\<lambda>(k, c). - int c) (map (\<lambda>k. (k, count_list ks k)) (remdups ks))"

definition getEmployeeStats :: "store \<Rightarrow> date \<Rightarrow> response \<times> store" where
  "getEmployeeStats db t =
     (Response 200 (StatisticsData ''Employee statistics retrieved successfully''
        \<lparr>totalEmployees = length db,
         activeEmployees = length (filter (\<lambda>d. status d = ''active'') db),
         inactiveEmployees = length (filter (\<lambda>d. status d = ''inactive'') db),
         terminatedEmployees = length (filter (\<lambda>d. status d = ''terminated'') db),
         recentHires = length (filter (\<lambda>d. case startDate (jobInfo d) of
                                               None \<Rightarrow> False
                                             | Some sd \<Rightarrow> t - 2592000000 \<le> sd) db),
         departmentStats = groupCount (map (\<lambda>d. department (jobInfo d)) db),
         employmentTypeStats = groupCount (map (\<lambda>d. employmentType (jobInfo d)) db)\<rparr>), db)"

text \<open>
  The router. Routes are tried in the order in which the source registers them, and the
  first one whose method and path pattern match the request handles it: none of the
  chains of this router passes a request on once it has matched. A pattern segment
  \<^verbatim>\<open>:id\<close> takes any non-empty segment; the other segments are compared without regard to
  case; one trailing slash is allowed. \<^verbatim>\<open>requireAdmin\<close> is installed with
  \<^verbatim>\<open>router.use\<close>, before every route. A request that no route takes reaches the
  application's 404 handler. The response headers, the rate limiter and the audit log
  (a line on the console) do not touch the store or the response body and are left out.
\<close>

datatype route =
  ListEmployees | GetEmployee | CreateEmployee | UpdateEmployee | DeleteEmployee | EmployeeStats

definition routeTable :: "(string \<times> string list \<times> route) list" where
  "routeTable =
     [(''GET'', [''employees''], ListEmployees),
      (''GET'', [''employees'', '':id''], GetEmployee),
      (''POST'', [''employees''], CreateEmployee),
      (''PUT'', [''employees'', '':id''], UpdateEmployee),
      (''DELETE'', [''employees'', '':id''], DeleteEmployee),
      (''GET'', [''employees'', ''stats''], EmployeeStats)]"

fun splitPath :: "string \<Rightarrow> string \<Rightarrow> string list" where
  "splitPath cur [] = [cur]"
| "splitPath cur (c # cs) =
     (if c = CHR ''/'' then cur # splitPath [] cs else splitPath (cur @ [c]) cs)"

definition pathSegments :: "string \<Rightarrow> string list" where
  "pathSegments p =
     (let segs = (case splitPath [] p of [] \<Rightarrow> [] | s # ss \<Rightarrow> if s = [] then ss else s # ss)
      in if segs \<noteq> [] \<and> last segs = [] then butlast segs else segs)"

fun matchPattern :: "string list \<Rightarrow> string list \<Rightarrow> string option \<Rightarrow> string option option" where
  "matchPattern [] [] acc = Some acc"
| "matchPattern (p # ps) (s # ss) acc =
     (if take 1 p = '':''
      then (if s = [] then None else matchPattern ps ss (Some s))
      else if map toLowerCase p = map toLowerCase s then matchPattern ps ss acc
      else None)"
| "matchPattern [] (s # ss) acc = None"
| "matchPattern (p # ps) [] acc = None"

fun firstMatch ::
  "(string \<times> string list \<times> route) list \<Rightarrow> string \<Rightarrow> string list
     \<Rightarrow> (route \<times> string option) option" where
  "firstMatch [] m segs = None"
| "firstMatch ((m', pat, r) # rest) m segs =
     (if m' = m
      then (case matchPattern pat segs None of
              Some params \<Rightarrow> Some (r, params)
            | None \<Rightarrow> firstMatch rest m segs)
      else firstMatch rest m segs)"

definition adminRouter :: "store \<Rightarrow> request \<Rightarrow> response \<times> store" where
  "adminRouter db req =
     (case requireAdmin (reqSession req) of
        Inl r \<Rightarrow> (r, db)
      | Inr u \<Rightarrow>
         (case firstMatch routeTable (reqMethod req) (pathSegments (reqPath req)) of
            None \<Rightarrow> (Response 404 (Message ''Route not found''), db)
          | Some (r, params) \<Rightarrow>
             (case r of
                ListEmployees \<Rightarrow> getEmployees db
              | GetEmployee \<Rightarrow> getEmployee db (case params of None \<Rightarrow> [] | Some i \<Rightarrow> i)
              | CreateEmployee \<Rightarrow> postEmployees db (userId u) req
              | UpdateEmployee \<Rightarrow>
                  putEmployee db (userId u) (case params of None \<Rightarrow> [] | Some i \<Rightarrow> i) req
              | DeleteEmployee \<Rightarrow> deleteEmployee db (case params of None \<Rightarrow> [] | Some i \<Rightarrow> i)
              | EmployeeStats \<Rightarrow> getEmployeeStats db (now req))))"

section \<open>Sanitization (middleware/validation.js)\<close>

text \<open>
  \<^verbatim>\<open>s.replace(re, '')\<close> for a global regular expression that matches no empty string:
  the text is scanned from the left; where the expression matches, the match is dropped
  and the scan goes on behind it; elsewhere the character is kept. \<open>m\<close> gives the length
  of the match that starts at the head of its argument; \<open>k\<close> counts the characters of
  the current match that are still to drop.
\<close>

fun replaceAll :: "(string \<Rightarrow> nat option) \<Rightarrow> nat \<Rightarrow> string \<Rightarrow> string" where
  "replaceAll m k [] = []"
| "replaceAll m k (c # cs) =
     (if k > 0 then replaceAll m (k - 1) cs
      else (case m (c # cs) of
              None \<Rightarrow> c # replaceAll m 0 cs
            | Some n \<Rightarrow> if n = 0 then c # replaceAll m 0 cs else replaceAll m (n - 1) cs))"

text \<open>The text begins with \<open>pat\<close> (given in lower case), letters compared without case.\<close>

definition startsWithCI :: "string \<Rightarrow> string \<Rightarrow> bool" where
  "startsWithCI pat t = (map toLowerCase (take (length pat) t) = pat)"

text \<open>
  \<^verbatim>\<open>/<script\b[^<]*(?:(?!<\/script>)<[^<]*)*<\/script>/gi\<close>. After \<^verbatim>\<open><script\<close> and the
  word boundary, the expression takes characters other than \<^verbatim>\<open><\<close>, and a \<^verbatim>\<open><\<close> only
  where no \<^verbatim>\<open></script>\<close> begins; it can therefore end only at the first
  \<^verbatim>\<open></script>\<close> behind the opening, and it fails when there is none.
  \<open>closingOffset\<close> is the offset of that first \<^verbatim>\<open></script>\<close>.
\<close>

fun closingOffset :: "string \<Rightarrow> nat option" where
  "closingOffset [] = None"
| "closingOffset (c # cs) =
     (if startsWithCI ''</script>'' (c # cs) then Some 0
      else map_option Suc (closingOffset cs))"

definition scriptMatch :: "string \<Rightarrow> nat option" where
  "scriptMatch t =
     (if startsWithCI ''<script'' t
      then (let rest = drop 7 t in
            if rest \<noteq> [] \<and> isWordChar (hd rest) then None
            else map_option (\<lambda>n. 7 + n + 9) (closingOffset rest))
      else None)"

text \<open>\<^verbatim>\<open>/javascript:/gi\<close>\<close>

definition javascriptMatch :: "string \<Rightarrow> nat option" where
  "javascriptMatch t = (if startsWithCI ''javascript:'' t then Some 11 else None)"

text \<open>
  \<^verbatim>\<open>/on\w+\s*=/gi\<close>: \<^verbatim>\<open>\w+\<close> and \<^verbatim>\<open>\s*\<close> take the longest runs (a shorter run is
  followed by a character that neither \<^verbatim>\<open>\s\<close> nor \<^verbatim>\<open>=\<close> matches).
\<close>

definition handlerMatch :: "string \<Rightarrow> nat option" where
  "handlerMatch t =
     (if startsWithCI ''on'' t
      then (let w = takeWhile isWordChar (drop 2 t);
                sp = takeWhile isSpace (drop (2 + length w) t)
            in if w = [] then None
               else if take 1 (drop (2 + length w + length sp) t) = ''=''
               then Some (2 + length w + length sp + 1)
               else None)
      else None)"

text \<open>The chain of replacements applied to a string property.\<close>

definition sanitizeString :: "string \<Rightarrow> string" where
  "sanitizeString s =
     trim (replaceAll handlerMatch 0 (replaceAll javascriptMatch 0 (replaceAll scriptMatch 0 s)))"

text \<open>
  JSON values. \<^verbatim>\<open>sanitizeObject(obj)\<close> visits every own property of an object or
  array: a string is replaced by its sanitized form, an object or array is visited in
  turn, anything else is left. \<^verbatim>\<open>sanitizeInput\<close> applies it to a body that is an object
  or an array.
\<close>

datatype json =
    JNull
  | JBool bool
  | JNumber int
  | JString string
  | JArray "json list"
  | JObject "(string \<times> json) list"

fun sanitizeProperty :: "json \<Rightarrow> json" where
  "sanitizeProperty (JString s) = JString (sanitizeString s)"
| "sanitizeProperty (JArray xs) = JArray (map sanitizeProperty xs)"
| "sanitizeProperty (JObject kvs) = JObject (map (map_prod id sanitizeProperty) kvs)"
| "sanitizeProperty JNull = JNull"
| "sanitizeProperty (JBool b) = JBool b"
| "sanitizeProperty (JNumber n) = JNumber n"

definition sanitizeInput :: "json \<Rightarrow> json" where
  "sanitizeInput b = (case b of
       JArray xs \<Rightarrow> sanitizeProperty b
     | JObject kvs \<Rightarrow> sanitizeProperty b
     | _ \<Rightarrow> b)"


section \<open>The manager graph\<close>



section \<open>Sample data\<close>

definition idA :: oid where "idA = ''aaaaaaaaaaaaaaaaaaaaaaaa''"
definition idB :: oid where "idB = ''bbbbbbbbbbbbbbbbbbbbbbbb''"
definition idC :: oid where "idC = ''cccccccccccccccccccccccc''"
definition adminId :: oid where "adminId = ''0123456789abcdef01234567''"

definition sampleEmployee ::
  "oid \<Rightarrow> string \<Rightarrow> string \<Rightarrow> string option \<Rightarrow> string \<Rightarrow> employee" where
  "sampleEmployee i eid mail mgr st =
     \<lparr>oid = i, employeeId = eid,
      personalInfo = \<lparr>firstName = Some ''Ada'', lastName = Some ''Lovelace'',
                      email = Some mail, phone = None, dateOfBirth = None, address = None\<rparr>,
      jobInfo = \<lparr>title = Some ''Engineer'', department = Some ''Engineering'', manager = mgr,
                 startDate = Some 1000, salary = Some 50000,
                 employmentType = Some ''full-time''\<rparr>,
      status = st, createdAt = 1000, updatedAt = 1000,
      createdBy = adminId, updatedBy = Some adminId\<rparr>"

definition emptyPayload :: payload where
  "emptyPayload = \<lparr>b_employeeId = None, b_personalInfo = None, b_jobInfo = None,
                    b_status = None, b_createdAt = None, b_updatedAt = None,
                    b_createdBy = None, b_updatedBy = None, b_otherKeys = []\<rparr>"

definition sampleRequest :: "string \<Rightarrow> string \<Rightarrow> payload \<Rightarrow> request" where
  "sampleRequest m p b =
     \<lparr>reqMethod = m, reqPath = p,
      reqSession = SessionUser (Some \<lparr>userId = adminId, username = ''root'', role = ''admin''\<rparr>),
      reqBody = b, fieldErrors = [], schemaErrors = [], otherKeysEffect = Inr,
      now = 5000, randomDraw = 1234,
      issuedId = ''dddddddddddddddddddddddd''\<rparr>"


text \<open>A single document that names itself as its manager.\<close>

definition loopStore :: store where
  "loopStore = [sampleEmployee idA ''EMP0001'' ''a@example.com'' (Some idA) ''active'']"

text \<open>A reports to nobody, B reports to A; both active.\<close>

definition chainStore :: store where
  "chainStore = [sampleEmployee idA ''EMP0001'' ''a@example.com'' None ''active'',
                 sampleEmployee idB ''EMP0002'' ''b@example.com'' (Some idA) ''active'']"


definition titlePayload :: json where
  "titlePayload =
     JObject [(''jobInfo'', JObject [(''title'', JString ''javajavascript:script:alert(1)'')])]"

definition seniorStore :: store where
  "seniorStore = [sampleEmployee idA ''EMP5000'' ''a@example.com'' None ''active'']"

definition newHirePayload :: payload where
  "newHirePayload = emptyPayload
     \<lparr>b_personalInfo := Some \<lparr>firstName = Some ''Grace'', lastName = Some ''Hopper'',
                               email = Some ''grace@example.com'', phone = None,
                               dateOfBirth = None, address = None\<rparr>,
      b_jobInfo := Some (emptyJobInfo\<lparr>title := Some ''Analyst'',
                                       department := Some ''Engineering'',
                                       startDate := Some 2000\<rparr>)\<rparr>"

definition newHire :: employee where
  "newHire =
     \<lparr>oid = ''dddddddddddddddddddddddd'', employeeId = ''EMP1234'',
      personalInfo = \<lparr>firstName = Some ''Grace'', lastName = Some ''Hopper'',
                      email = Some ''grace@example.com'', phone = None, dateOfBirth = None,
                      address = Some \<lparr>street = None, city = None, state = None,
                                      zipCode = None, country = Some ''United States''\<rparr>\<rparr>,
      jobInfo = \<lparr>title = Some ''Analyst'', department = Some ''Engineering'', manager = None,
                 startDate = Some 2000, salary = None, employmentType = Some ''full-time''\<rparr>,
      status = ''active'', createdAt = 5000, updatedAt = 5000,
      createdBy = adminId, updatedBy = Some adminId\<rparr>"

definition retiredB :: employee where
  "retiredB = (sampleEmployee idB ''EMP0002'' ''b@example.com'' (Some idA) ''inactive'')
                \<lparr>updatedBy := Some idC\<rparr>"



text \<open>The same body with a manager.\<close>

definition promotionUnder :: "string \<Rightarrow> payload" where
  "promotionUnder m = emptyPayload
     \<lparr>b_jobInfo := Some (emptyJobInfo\<lparr>title := Some ''Lead'',
                                       department := Some ''Engineering'',
                                       manager := Some m,
                                       startDate := Some 1000\<rparr>)\<rparr>"





section \<open>Invariants of the manager references\<close>


definition managersExist :: "store \<Rightarrow> bool" where
  "managersExist db =
     list_all (\<lambda>d. case manager (jobInfo d) of
                      None \<Rightarrow> True
                    | Some m \<Rightarrow> m \<in> set (map oid db)) db"


section \<open>Termination and length of the manager walk\<close>

lemma findById_in_store:
  "findById db s = Inr (Some m) \<Longrightarrow> m \<in> set db"
  by (auto simp: findById_def find_Some_iff split: option.splits)

lemma manager_in_managerRefs:
  "m \<in> set db \<Longrightarrow> manager (jobInfo m) = Some next \<Longrightarrow> next \<in> managerRefs db"
  by (force simp: managerRefs_def map_filter_def)

lemma walk_measure_decreases:
  assumes "managerId \<notin> visited"
    and "findById db managerId = Inr (Some m)"
    and "manager (jobInfo m) = Some next"
  shows "card (insert next (managerRefs db) - insert managerId visited)
           < card (insert managerId (managerRefs db) - visited)"
proof -
  have "next \<in> managerRefs db"
    using assms(2,3) findById_in_store manager_in_managerRefs by blast
  then have "insert next (managerRefs db) - insert managerId visited
               = managerRefs db - insert managerId visited"
    by auto
  moreover have "managerRefs db - insert managerId visited
                   \<subset> insert managerId (managerRefs db) - visited"
    using assms(1) by auto
  moreover have "finite (insert managerId (managerRefs db) - visited)"
    by (simp add: managerRefs_def)
  ultimately show ?thesis
    by (simp add: psubset_card_mono)
qed

lemma walkSteps_le_card:
  "walkSteps db e m V \<le> card (insert m (managerRefs db) - V)"
proof (induction db e m V rule: walkSteps.induct)
  case (1 db eid managerId visited)
  show ?case
  proof (cases "managerId \<in> visited \<or> managerId = eid")
    case True
    then show ?thesis by (auto simp: walkSteps.simps)
  next
    case False
    then have nv: "managerId \<notin> visited" and ne: "managerId \<noteq> eid" by auto
    show ?thesis
    proof (cases "findById db managerId")
      case (Inl a)
      with nv ne show ?thesis by (simp add: walkSteps.simps)
    next
      case (Inr r)
      show ?thesis
      proof (cases r)
        case None
        with Inr nv ne show ?thesis by (simp add: walkSteps.simps)
      next
        case (Some m)
        show ?thesis
        proof (cases "manager (jobInfo m)")
          case None
          with Some Inr nv ne show ?thesis by (simp add: walkSteps.simps)
        next
          case (Some nxt)
          from \<open>r = Some m\<close> Inr have f: "findById db managerId = Inr (Some m)" by simp
          have ih: "walkSteps db eid nxt (insert managerId visited)
                  \<le> card (insert nxt (managerRefs db) - insert managerId visited)"
            using "1.IH" [OF nv ne Inr \<open>r = Some m\<close> Some] .
          have "card (insert nxt (managerRefs db) - insert managerId visited)
                  < card (insert managerId (managerRefs db) - visited)"
            by (rule walk_measure_decreases [OF nv f Some])
          with ih have "Suc (walkSteps db eid nxt (insert managerId visited))
                  \<le> card (insert managerId (managerRefs db) - visited)" by simp
          moreover have "walkSteps db eid managerId visited
                  = Suc (walkSteps db eid nxt (insert managerId visited))"
            using nv ne f Some by (subst walkSteps.simps) simp
          ultimately show ?thesis by simp
        qed
      qed
    qed
  qed
qed

lemma card_managerRefs_le: "card (managerRefs db) \<le> length db"
proof -
  have "card (managerRefs db) \<le> length (List.map_filter (\<lambda>r. manager (jobInfo r)) db)"
    unfolding managerRefs_def by (rule card_length)
  also have "\<dots> \<le> length db" by (simp add: map_filter_def)
  finally show ?thesis .
qed

text \<open>
  Claim C6, as the source has it. \<^verbatim>\<open>checkCircularHierarchy\<close> is a total function of the
  store, the two identifiers and the visited set: its definition above is accepted with
  a measure, the number of strings among the starting identifier and the stored manager
  references that are not yet in the visited set, which every recursive call decreases,
  whatever the store holds (cycles and dangling references included). Hence the walk
  from an empty visited set follows at most one manager link more than there are
  documents.
\<close>

theorem walk_links_bounded: "walkSteps db eid managerId {} \<le> length db + 1"
proof -
  have "walkSteps db eid managerId {} \<le> card (insert managerId (managerRefs db) - {})"
    by (rule walkSteps_le_card)
  also have "\<dots> \<le> Suc (card (managerRefs db))"
    by (simp add: card_insert_if managerRefs_def)
  also have "\<dots> \<le> length db + 1"
    using card_managerRefs_le [of db] by simp
  finally show ?thesis .
qed

text \<open>
  Claim C6 as stated bounds the steps by the number of documents. With one document that
  names itself as manager, and a starting identifier written in upper case (the store
  finds the document, the visited set and \<^verbatim>\<open>===\<close> see another string), the walk follows
  two links: it looks the one document up twice before the visited set stops it.
\<close>

theorem walk_links_exceed_records:
  "walkSteps loopStore idB ''AAAAAAAAAAAAAAAAAAAAAAAA'' {} = 2 \<and> length loopStore = 1"
  by code_simp

section \<open>Rejection of cyclic and self assignments\<close>

lemma findById_SomeD:
  assumes "findById db ident = Inr (Some e)"
  shows "isObjectIdString ident" and "castObjectId ident = Some (oid e)" and "e \<in> set db"
    and "find (\<lambda>d. oid d = oid e) db = Some e"
  using assms
  by (auto simp: findById_def castObjectId_def find_Some_iff split: if_splits option.splits)



lemma chainStore_findA:
  "findById chainStore idA
     = Inr (Some (sampleEmployee idA ''EMP0001'' ''a@example.com'' None ''active''))"
  by code_simp

lemma chainStore_findB:
  "findById chainStore idB
     = Inr (Some (sampleEmployee idB ''EMP0002'' ''b@example.com'' (Some idA) ''active''))"
  by code_simp






text \<open>
  The two checks compare the identifiers as the request writes them, while the store
  takes either case of the hexadecimal digits; and they read the manager only from the
  \<^verbatim>\<open>jobInfo\<close> object of the body. An update of A that names A in upper case passes both
  checks and makes A its own manager; a body without a \<^verbatim>\<open>jobInfo\<close> object is not checked
  at all, whatever its other keys assign.
\<close>

lemma upper_case_self_assignment_accepted:
  "putEmployee chainStore adminId idA
       (sampleRequest ''PUT'' ''/employees/aaaaaaaaaaaaaaaaaaaaaaaa''
          (promotionUnder ''AAAAAAAAAAAAAAAAAAAAAAAA''))
     = (Response 200 (EmployeeData ''Employee updated successfully''
          (Some ((sampleEmployee idA ''EMP0001'' ''a@example.com'' None ''active'')
                   \<lparr>jobInfo := emptyJobInfo\<lparr>title := Some ''Lead'',
                                            department := Some ''Engineering'',
                                            manager := Some idA,
                                            startDate := Some 1000\<rparr>\<rparr>))),
        [(sampleEmployee idA ''EMP0001'' ''a@example.com'' None ''active'')
                   \<lparr>jobInfo := emptyJobInfo\<lparr>title := Some ''Lead'',
                                            department := Some ''Engineering'',
                                            manager := Some idA,
                                            startDate := Some 1000\<rparr>\<rparr>,
         sampleEmployee idB ''EMP0002'' ''b@example.com'' (Some idA) ''active''])"
  by code_simp

lemma manager_outside_jobInfo_not_validated:
  "b_jobInfo b = None \<Longrightarrow> validateManagerAssignment db paramsId b = None"
  by (simp add: validateManagerAssignment_def)

section \<open>Deletion\<close>

lemma deleteById_remove1:
  "find (\<lambda>d. oid d = i) db = Some e \<Longrightarrow> deleteById i db = remove1 e db"
proof (induction db)
  case Nil
  then show ?case by simp
next
  case (Cons d ds)
  show ?case
  proof (cases "oid d = i")
    case True
    with Cons.prems show ?thesis by simp
  next
    case False
    with Cons.prems have f: "find (\<lambda>d. oid d = i) ds = Some e" by simp
    then have "oid e = i" by (auto simp: find_Some_iff)
    with False have "e \<noteq> d" by auto
    with False Cons.IH [OF f] show ?thesis by simp
  qed
qed

lemma removed_id_absent:
  "distinct (map oid db) \<Longrightarrow> e \<in> set db \<Longrightarrow> find (\<lambda>d. oid d = oid e) (remove1 e db) = None"
proof (induction db)
  case Nil
  then show ?case by simp
next
  case (Cons d ds)
  show ?case
  proof (cases "e = d")
    case True
    from Cons.prems(1) have "oid d \<notin> oid ` set ds" by simp
    then have "find (\<lambda>x. oid x = oid d) ds = None"
      unfolding find_None_iff by (metis imageI)
    with True show ?thesis by simp
  next
    case False
    with Cons.prems have "e \<in> set ds" by simp
    with Cons.prems(1) have "oid d \<noteq> oid e" by auto
    with False Cons show ?thesis by simp
  qed
qed

text \<open>
  Claim C8. For an employee E that exists, a delete request is answered as follows. When
  at least one document names E as its manager: status 400, the store unchanged, and a
  count equal to the number of documents whose \<^verbatim>\<open>jobInfo.manager\<close> is E. When none does:
  status 200 with the summary of E's \<^verbatim>\<open>_id\<close>, its \<^verbatim>\<open>employeeId\<close> and its full name (first
  name, a space, last name; an absent name prints as \<^verbatim>\<open>undefined\<close>), and the store is
  the former one with the document E taken out, every other document staying in place;
  with \<^verbatim>\<open>_id\<close>s unique, no document with E's \<^verbatim>\<open>_id\<close> is left.
\<close>

theorem delete_guarded_by_dependents:
  assumes "findById db ident = Inr (Some e)"
  shows "deleteEmployee db ident =
     (if filter (\<lambda>d. manager (jobInfo d) = Some (oid e)) db \<noteq> []
      then (Response 400 (ManagedEmployees
              ''Cannot delete employee who is managing other employees''
              (length (filter (\<lambda>d. manager (jobInfo d) = Some (oid e)) db))), db)
      else (Response 200 (DeletedEmployee ''Employee deleted successfully''
              (oid e) (employeeId e)
              ((case firstName (personalInfo e) of None \<Rightarrow> ''undefined'' | Some f \<Rightarrow> f)
                 @ '' '' @
               (case lastName (personalInfo e) of None \<Rightarrow> ''undefined'' | Some l \<Rightarrow> l))),
            remove1 e db))
   \<and> (distinct (map oid db) \<longrightarrow> findById (remove1 e db) ident = Inr None)"
proof
  from findById_SomeD [OF assms]
  have "isObjectIdString ident" and c: "castObjectId ident = Some (oid e)"
    and f: "find (\<lambda>d. oid d = oid e) db = Some e" by auto
  with assms deleteById_remove1 [OF f]
  show "deleteEmployee db ident =
     (if filter (\<lambda>d. manager (jobInfo d) = Some (oid e)) db \<noteq> []
      then (Response 400 (ManagedEmployees
              ''Cannot delete employee who is managing other employees''
              (length (filter (\<lambda>d. manager (jobInfo d) = Some (oid e)) db))), db)
      else (Response 200 (DeletedEmployee ''Employee deleted successfully''
              (oid e) (employeeId e)
              ((case firstName (personalInfo e) of None \<Rightarrow> ''undefined'' | Some f \<Rightarrow> f)
                 @ '' '' @
               (case lastName (personalInfo e) of None \<Rightarrow> ''undefined'' | Some l \<Rightarrow> l))),
            remove1 e db))"
    by (simp add: deleteEmployee_def validateEmployeeId_def managedBy_def Let_def fullName_def)
  show "distinct (map oid db) \<longrightarrow> findById (remove1 e db) ident = Inr None"
    using c findById_SomeD(3) [OF assms] by (simp add: findById_def removed_id_absent)
qed

theorem delete_guarded_by_dependents_witness:
  "deleteEmployee chainStore idA =
     (Response 400 (ManagedEmployees
        ''Cannot delete employee who is managing other employees'' 1), chainStore)
   \<and> deleteEmployee chainStore idB =
     (Response 200 (DeletedEmployee ''Employee deleted successfully''
        idB ''EMP0002'' ''Ada Lovelace''),
      [sampleEmployee idA ''EMP0001'' ''a@example.com'' None ''active''])
   \<and> findById [sampleEmployee idA ''EMP0001'' ''a@example.com'' None ''active''] idB = Inr None"
proof (intro conjI)
  let ?a = "sampleEmployee idA ''EMP0001'' ''a@example.com'' None ''active''"
  let ?b = "sampleEmployee idB ''EMP0002'' ''b@example.com'' (Some idA) ''active''"
  note forA = delete_guarded_by_dependents [OF chainStore_findA]
  note forB = delete_guarded_by_dependents [OF chainStore_findB]
  have "deleteEmployee chainStore idA =
     (if filter (\<lambda>d. manager (jobInfo d) = Some (oid ?a)) chainStore \<noteq> []
      then (Response 400 (ManagedEmployees
              ''Cannot delete employee who is managing other employees''
              (length (filter (\<lambda>d. manager (jobInfo d) = Some (oid ?a)) chainStore))),
            chainStore)
      else (Response 200 (DeletedEmployee ''Employee deleted successfully''
              (oid ?a) (employeeId ?a)
              ((case firstName (personalInfo ?a) of None \<Rightarrow> ''undefined'' | Some f \<Rightarrow> f)
                 @ '' '' @
               (case lastName (personalInfo ?a) of None \<Rightarrow> ''undefined'' | Some l \<Rightarrow> l))),
            remove1 ?a chainStore))"
    by (rule forA [THEN conjunct1])
  also have "\<dots> = (Response 400 (ManagedEmployees
        ''Cannot delete employee who is managing other employees'' 1), chainStore)"
    by code_simp
  finally show "deleteEmployee chainStore idA =
     (Response 400 (ManagedEmployees
        ''Cannot delete employee who is managing other employees'' 1), chainStore)" .
  have "deleteEmployee chainStore idB =
     (if filter (\<lambda>d. manager (jobInfo d) = Some (oid ?b)) chainStore \<noteq> []
      then (Response 400 (ManagedEmployees
              ''Cannot delete employee who is managing other employees''
              (length (filter (\<lambda>d. manager (jobInfo d) = Some (oid ?b)) chainStore))),
            chainStore)
      else (Response 200 (DeletedEmployee ''Employee deleted successfully''
              (oid ?b) (employeeId ?b)
              ((case firstName (personalInfo ?b) of None \<Rightarrow> ''undefined'' | Some f \<Rightarrow> f)
                 @ '' '' @
               (case lastName (personalInfo ?b) of None \<Rightarrow> ''undefined'' | Some l \<Rightarrow> l))),
            remove1 ?b chainStore))"
    by (rule forB [THEN conjunct1])
  also have "\<dots> = (Response 200 (DeletedEmployee ''Employee deleted successfully''
        idB ''EMP0002'' ''Ada Lovelace''), [?a])"
    by code_simp
  finally show "deleteEmployee chainStore idB =
     (Response 200 (DeletedEmployee ''Employee deleted successfully''
        idB ''EMP0002'' ''Ada Lovelace''), [?a])" .
  have d: "distinct (map oid chainStore)" by code_simp
  have r: "remove1 ?b chainStore = [?a]" by code_simp
  from forB [THEN conjunct2] d r show "findById [?a] idB = Inr None" by simp
qed

section \<open>The statistics route\<close>

text \<open>
  Claim C10. The source registers \<^verbatim>\<open>GET /employees/:id\<close> before
  \<^verbatim>\<open>GET /employees/stats\<close>. A request \<^verbatim>\<open>GET /employees/stats\<close> of an administrator is
  therefore taken by the former with \<^verbatim>\<open>id = 'stats'\<close>, and \<^verbatim>\<open>validateEmployeeId\<close> answers
  it with status 400; the statistics handler is not reached.
\<close>

theorem stats_request_taken_by_id_route:
  "firstMatch routeTable ''GET'' (pathSegments ''/employees/stats'')
     = Some (GetEmployee, Some ''stats'')
   \<and> adminRouter chainStore (sampleRequest ''GET'' ''/employees/stats'' emptyPayload) =
     (Response 400 (MessageError ''Invalid employee ID format''
        ''Employee ID must be a valid MongoDB ObjectId''), chainStore)"
  by code_simp

section \<open>Sanitization is not idempotent\<close>

text \<open>
  Claim C7. Each replacement is one pass from left to right, so removing a match can
  bring the text on both sides of it together into a new match. The body below is
  sanitized to a title that still holds \<^verbatim>\<open>javascript:\<close>, and sanitizing that result
  changes it again.
\<close>

theorem sanitize_twice_differs:
  "sanitizeInput titlePayload
     = JObject [(''jobInfo'', JObject [(''title'', JString ''javascript:alert(1)'')])]
   \<and> sanitizeInput (sanitizeInput titlePayload)
     = JObject [(''jobInfo'', JObject [(''title'', JString ''alert(1)'')])]"
  by code_simp

section \<open>Identifiers of created employees\<close>

text \<open>
  Claim C2. The create route never leaves \<^verbatim>\<open>employeeId\<close> empty: without one in the
  body it takes \<^verbatim>\<open>generateEmployeeId()\<close>, \<^verbatim>\<open>'EMP'\<close> followed by a random number below
  10000, so the sequential hook of the schema never runs. With a store that holds
  \<^verbatim>\<open>EMP5000\<close> and the draw 1234, the create succeeds and persists \<^verbatim>\<open>EMP1234\<close>, which
  is not greater than the identifier already present.
\<close>

theorem generated_id_below_existing:
  "postEmployees seniorStore adminId (sampleRequest ''POST'' ''/employees'' newHirePayload)
     = (Response 201 (EmployeeData ''Employee created successfully'' (Some newHire)),
        seniorStore @ [newHire])
   \<and> map employeeId seniorStore = [''EMP5000'']
   \<and> employeeId newHire = ''EMP1234''
   \<and> employeeNumber (employeeId newHire) < employeeNumber ''EMP5000''
   \<and> sequentialEmployeeId seniorStore = ''EMP5001''"
  by code_simp

section \<open>Audit fields on update\<close>

text \<open>
  Claim C9. The update route sets \<^verbatim>\<open>updatedBy\<close>, but it writes through
  \<^verbatim>\<open>findByIdAndUpdate\<close>, which runs no \<^verbatim>\<open>save\<close> hook: \<^verbatim>\<open>updatedAt\<close> keeps its value. The
  administrator C sets the status of B at time 5000; the persisted document has
  \<^verbatim>\<open>updatedBy\<close> C and \<^verbatim>\<open>updatedAt\<close> still 1000.
\<close>

theorem update_keeps_updatedAt:
  "putEmployee chainStore idC idB
       ((sampleRequest ''PUT'' ''/employees/bbbbbbbbbbbbbbbbbbbbbbbb''
           (emptyPayload\<lparr>b_status := Some ''inactive''\<rparr>))\<lparr>now := 5000\<rparr>)
     = (Response 200 (EmployeeData ''Employee updated successfully'' (Some retiredB)),
        [sampleEmployee idA ''EMP0001'' ''a@example.com'' None ''active'', retiredB])
   \<and> updatedBy retiredB = Some idC
   \<and> updatedAt retiredB = 1000
   \<and> updatedAt (sampleEmployee idB ''EMP0002'' ''b@example.com'' (Some idA) ''active'') = 1000"
  by code_simp


section \<open>What an update changes and what it leaves\<close>






lemma applyOtherKeys_oid:
  "applyOtherKeys req d = Inr d' \<Longrightarrow> oid d' = oid d"
  by (auto simp: applyOtherKeys_def split: if_splits sum.splits)









text \<open>
  The body with the title alone is refused: the object names the required paths below
  \<^verbatim>\<open>jobInfo\<close> without giving them, the validators fail and the route answers 500.
\<close>

lemma title_alone_refused:
  "putEmployee chainStore idC idB
       (sampleRequest ''PUT'' ''/employees/bbbbbbbbbbbbbbbbbbbbbbbb''
          (emptyPayload\<lparr>b_jobInfo := Some (emptyJobInfo\<lparr>title := Some ''Lead''\<rparr>)\<rparr>))
     = (Response 500 (Message ''Failed to update employee''), chainStore)"
  by code_simp

section \<open>Manager references across create, update and delete\<close>































text \<open>
  The checks of \<^verbatim>\<open>validateManagerAssignment\<close> read the \<^verbatim>\<open>jobInfo\<close> object of the body
  only. A body whose single key is the dotted path \<^verbatim>\<open>'jobInfo.manager'\<close> passes them
  unread, and the store sets the path: B is given a manager that no document of the
  store has.
\<close>

lemma dotted_manager_key_not_validated:
  "managersExist chainStore
   \<and> putEmployee chainStore adminId idB
       ((sampleRequest ''PUT'' ''/employees/bbbbbbbbbbbbbbbbbbbbbbbb''
           (emptyPayload\<lparr>b_otherKeys := [''jobInfo.manager'']\<rparr>))
          \<lparr>otherKeysEffect :=
             (\<lambda>d. Inr (d\<lparr>jobInfo := (jobInfo d)\<lparr>manager := Some ''eeeeeeeeeeeeeeeeeeeeeeee''\<rparr>\<rparr>))\<rparr>)
     = (Response 200 (EmployeeData ''Employee updated successfully''
          (Some ((sampleEmployee idB ''EMP0002'' ''b@example.com''
                    (Some ''eeeeeeeeeeeeeeeeeeeeeeee'') ''active'')
                   \<lparr>updatedBy := Some adminId\<rparr>))),
        [sampleEmployee idA ''EMP0001'' ''a@example.com'' None ''active'',
         (sampleEmployee idB ''EMP0002'' ''b@example.com''
            (Some ''eeeeeeeeeeeeeeeeeeeeeeee'') ''active'')\<lparr>updatedBy := Some adminId\<rparr>])
   \<and> \<not> managersExist
         [sampleEmployee idA ''EMP0001'' ''a@example.com'' None ''active'',
          (sampleEmployee idB ''EMP0002'' ''b@example.com''
             (Some ''eeeeeeeeeeeeeeeeeeeeeeee'') ''active'')\<lparr>updatedBy := Some adminId\<rparr>]"
  by code_simp

end
